theory Spec2Isabelle
  imports Complex_Main
begin

section \<open>DeePray: the trainable base class and the NFM model\<close>

text \<open>
  A shallow embedding of \<^verbatim>\<open>deepray/base/base_trainable.py\<close> and
  \<^verbatim>\<open>deepray/model/model_nfm.py\<close>. Python exceptions are values of the
  type \<open>error\<close>; a method that can raise returns \<open>error + 'a\<close>, with
  \<open>Inl\<close> for the exception. Learning rates are only stored, compared with
  nothing and handed on, never computed with, so a rate is the real number its
  decimal literal denotes; the same holds for the one float literal of
  \<^verbatim>\<open>_mylog\<close>, whose arithmetic is the library's. Calls into the libraries
  and the operating system that can raise are parameters of the methods that
  make them, each returning a value or an exception.
\<close>

subsection \<open>Exceptions and flags\<close>

datatype error =
    ValueError string
  | NotImplementedError string
  | KeyError string
  | AttributeError string
  | TypeError string
  | InvalidArgumentError string

text \<open>
  The flags the module declares with \<^verbatim>\<open>flags.DEFINE_*\<close>, in the order of the
  source. A flag whose default is \<^verbatim>\<open>None\<close>, or that the code tests against
  \<^verbatim>\<open>None\<close>, is an option. The flag \<^verbatim>\<open>lr_schedule\<close> is named
  \<open>lr_schedule_flag\<close> here, since the method of the same name follows.
  \<^verbatim>\<open>learning_rate\<close> is read by \<^verbatim>\<open>build_optimizer\<close> and declared in
  another module: it is a field like the others.
\<close>

record flags =
  gzip :: bool
  lr_schedule_flag :: bool
  optimizer :: string
  patient_valid_passes :: "int option"
  profile_batch :: "string option"
  checkpoint_path :: string
  summaries_dir :: string
  train_data :: "string option"
  valid_data :: "string option"
  batch_size :: int
  epochs :: int
  parallel_parse :: "int option"
  shuffle_buffer :: int
  prefetch_buffer :: int
  learning_rate :: real

text \<open>
  The values the flags have when the command line sets none of them: the
  defaults of the \<^verbatim>\<open>DEFINE_*\<close> calls. \<open>TIME_STAMP\<close> is the module constant
  of that name, the time of the import as text; the default of
  \<^verbatim>\<open>learning_rate\<close> is declared with the flag, in the other module.
\<close>

definition default_flags :: "string \<Rightarrow> real \<Rightarrow> flags" where
  "default_flags TIME_STAMP rate =
     \<lparr>gzip = False, lr_schedule_flag = False, optimizer = ''lazyadam'',
      patient_valid_passes = None, profile_batch = None,
      checkpoint_path = ''summaries/'' @ TIME_STAMP @ ''/cpk/'',
      summaries_dir = ''summaries/'' @ TIME_STAMP,
      train_data = None, valid_data = None,
      batch_size = 1, epochs = 1, parallel_parse = Some 8,
      shuffle_buffer = 512, prefetch_buffer = 4096,
      learning_rate = rate\<rparr>"

text \<open>The choices of the enum flag \<^verbatim>\<open>optimizer\<close>, as \<^verbatim>\<open>DEFINE_enum\<close> lists them.\<close>

definition optimizer_enum_values :: "string list" where
  "optimizer_enum_values =
     [''adam'', ''adagrad'', ''adadelta'', ''lazyadam'', ''sgd'', ''RMSprop'', ''ftrl'']"

text \<open>
  An enum flag accepts a value when it is one of the listed choices (the
  comparison is case sensitive, the default of \<^verbatim>\<open>DEFINE_enum\<close>).
\<close>

definition optimizer_flag_valid :: "flags \<Rightarrow> bool" where
  "optimizer_flag_valid f = (optimizer f \<in> set optimizer_enum_values)"

subsection \<open>The learning-rate schedule\<close>

definition LR_SCHEDULE :: "(int \<times> real) list" where
  "LR_SCHEDULE = [(3, 0.05), (6, 0.01), (9, 0.005), (12, 0.001)]"

text \<open>
  The \<^verbatim>\<open>for i in range(len(LR_SCHEDULE))\<close> loop of \<^verbatim>\<open>lr_schedule\<close>, from
  index \<open>i\<close> on: the first entry whose epoch equals \<open>epoch\<close> decides, and
  the statement after the loop returns \<open>lr\<close>.
\<close>

function lr_schedule_loop :: "nat \<Rightarrow> int \<Rightarrow> real \<Rightarrow> real" where
  "lr_schedule_loop i epoch lr =
     (if i < length LR_SCHEDULE
      then (if epoch = fst (LR_SCHEDULE ! i) then snd (LR_SCHEDULE ! i)
            else lr_schedule_loop (Suc i) epoch lr)
      else lr)"
  by pat_completeness auto
termination
  by (relation "measure (\<lambda>(i, epoch, lr). length LR_SCHEDULE - i)") auto

definition lr_schedule :: "int \<Rightarrow> real \<Rightarrow> real" where
  "lr_schedule epoch lr =
     (if epoch < fst (LR_SCHEDULE ! 0) \<or> epoch > fst (last LR_SCHEDULE) then lr
      else lr_schedule_loop 0 epoch lr)"

text \<open>
  \<^verbatim>\<open>self.flags\<close> is the global \<^verbatim>\<open>FLAGS\<close> object (\<^verbatim>\<open>__init__\<close> stores it
  unchanged, and \<^verbatim>\<open>tfrecord_pipeline\<close> reads the global directly), so every
  method below receives the one flag record as \<open>FLAGS\<close>.
\<close>

subsection \<open>Optimizers\<close>

datatype optimizer_class = Adam | Adadelta | Adagrad | LazyAdam | Ftrl | SGD | RMSprop

text \<open>An optimizer object: its class and the \<^verbatim>\<open>learning_rate\<close> keyword it was built with.\<close>

datatype optimizer_object =
  Optimizer (class_of: optimizer_class) (learning_rate_of: real)

definition build_optimizer :: "flags \<Rightarrow> error + optimizer_object" where
  "build_optimizer FLAGS =
     (if optimizer FLAGS = ''adam'' then Inr (Optimizer Adam (learning_rate FLAGS))
      else if optimizer FLAGS = ''adadelta'' then Inr (Optimizer Adadelta (learning_rate FLAGS))
      else if optimizer FLAGS = ''adagrad'' then Inr (Optimizer Adagrad (learning_rate FLAGS))
      else if optimizer FLAGS = ''lazyadam'' then Inr (Optimizer LazyAdam (learning_rate FLAGS))
      else if optimizer FLAGS = ''ftrl'' then Inr (Optimizer Ftrl (learning_rate FLAGS))
      else if optimizer FLAGS = ''sgd'' then Inr (Optimizer SGD (learning_rate FLAGS))
      else if optimizer FLAGS = ''RMSprop'' then Inr (Optimizer RMSprop (learning_rate FLAGS))
      else Inl (ValueError (''--optimizer '' @ optimizer FLAGS @ '' was not found.'')))"

subsection \<open>The dataset library\<close>

text \<open>
  \<^verbatim>\<open>tfrecord_pipeline\<close> only calls \<^verbatim>\<open>tf.data\<close>: the record source and five
  operators. Each of these calls either returns a dataset or raises, and what
  it does is the library's, not this code's; so the library is a parameter of
  the pipeline, a record with one function for each call. \<open>'f\<close> is the type
  of a file argument, \<open>'p\<close> the type of the function handed to \<^verbatim>\<open>map\<close> and
  \<open>'d\<close> the type of a dataset.
\<close>

datatype compression = GZIP

text \<open>\<^verbatim>\<open>tf.data.experimental.AUTOTUNE\<close> is the integer \<open>-1\<close>.\<close>

definition AUTOTUNE :: int where
  "AUTOTUNE = - 1"

record ('f, 'p, 'd) tf_data =
  tfrecord_dataset :: "'f list \<Rightarrow> compression option \<Rightarrow> error + 'd"
  ds_map :: "'d \<Rightarrow> 'p \<Rightarrow> int \<Rightarrow> error + 'd"
  ds_shuffle :: "'d \<Rightarrow> int \<Rightarrow> error + 'd"
  ds_repeat :: "'d \<Rightarrow> int \<Rightarrow> error + 'd"
  ds_batch :: "'d \<Rightarrow> int \<Rightarrow> error + 'd"
  ds_prefetch :: "'d \<Rightarrow> int \<Rightarrow> error + 'd"

text \<open>
  \<^verbatim>\<open>tfrecord_pipeline\<close> is a class method: \<open>cls_parser\<close> is \<^verbatim>\<open>cls.parser\<close>,
  the parser of the class it is called on. An exception of the source or of
  an operator ends the method: the operators after it are not applied.
\<close>

definition tfrecord_pipeline ::
  "('f, 'p, 'd) tf_data \<Rightarrow> flags \<Rightarrow> 'p \<Rightarrow> 'f \<Rightarrow> int \<Rightarrow> int \<Rightarrow> bool \<Rightarrow> error + 'd" where
  "tfrecord_pipeline tf FLAGS cls_parser tfrecord_files batch_sz n_epochs shuffle =
     (case tfrecord_dataset tf [tfrecord_files] (if gzip FLAGS then Some GZIP else None) of
        Inl e \<Rightarrow> Inl e
      | Inr dataset \<Rightarrow>
     (case ds_map tf dataset cls_parser
             (case parallel_parse FLAGS of None \<Rightarrow> AUTOTUNE | Some n \<Rightarrow> n) of
        Inl e \<Rightarrow> Inl e
      | Inr dataset \<Rightarrow>
     (case (if shuffle then ds_shuffle tf dataset (shuffle_buffer FLAGS) else Inr dataset) of
        Inl e \<Rightarrow> Inl e
      | Inr dataset \<Rightarrow>
     (case ds_repeat tf dataset n_epochs of
        Inl e \<Rightarrow> Inl e
      | Inr dataset \<Rightarrow>
     (case ds_batch tf dataset batch_sz of
        Inl e \<Rightarrow> Inl e
      | Inr dataset \<Rightarrow> ds_prefetch tf dataset (prefetch_buffer FLAGS))))))"

text \<open>
  The library as it behaves under eager execution, for the concrete calls
  below. A dataset is the term of the calls that built it. The source converts
  its file names to a string tensor and rejects \<^verbatim>\<open>None\<close>; \<^verbatim>\<open>map\<close> traces its
  function once, on a placeholder for one serialized record, so an exception of
  the function is an exception of \<^verbatim>\<open>map\<close>, and then checks the degree of
  parallelism; \<^verbatim>\<open>shuffle\<close>, \<^verbatim>\<open>batch\<close> and \<^verbatim>\<open>prefetch\<close> check their size when
  they are called; \<^verbatim>\<open>repeat\<close> accepts every count. The message texts are the
  library's in substance, not to the letter.
\<close>

datatype ('f, 'p) dataset =
    TFRecordDataset "'f list" "compression option"
  | MapDataset "('f, 'p) dataset" 'p int
  | ShuffleDataset "('f, 'p) dataset" int
  | RepeatDataset "('f, 'p) dataset" int
  | BatchDataset "('f, 'p) dataset" int
  | PrefetchDataset "('f, 'p) dataset" int

datatype record_tensor = SymbolicRecord

definition eager_tfrecord_dataset ::
  "string option list \<Rightarrow> compression option \<Rightarrow> error + (string option, 'p) dataset" where
  "eager_tfrecord_dataset filenames compression_type =
     (if None \<in> set filenames
      then Inl (ValueError ''Attempt to convert a value (None) with an unsupported type to a Tensor.'')
      else Inr (TFRecordDataset filenames compression_type))"

definition eager_map ::
  "('f, record_tensor \<Rightarrow> error + 'e) dataset \<Rightarrow> (record_tensor \<Rightarrow> error + 'e) \<Rightarrow> int \<Rightarrow>
   error + ('f, record_tensor \<Rightarrow> error + 'e) dataset" where
  "eager_map dataset map_func num_parallel_calls =
     (case map_func SymbolicRecord of
        Inl e \<Rightarrow> Inl e
      | Inr traced \<Rightarrow>
          if num_parallel_calls = AUTOTUNE \<or> 0 < num_parallel_calls
          then Inr (MapDataset dataset map_func num_parallel_calls)
          else Inl (InvalidArgumentError ''num_parallel_calls must be greater than zero.''))"

definition eager_shuffle :: "('f, 'p) dataset \<Rightarrow> int \<Rightarrow> error + ('f, 'p) dataset" where
  "eager_shuffle dataset buffer_size =
     (if 0 < buffer_size then Inr (ShuffleDataset dataset buffer_size)
      else Inl (InvalidArgumentError ''buffer_size must be greater than zero.''))"

definition eager_repeat :: "('f, 'p) dataset \<Rightarrow> int \<Rightarrow> error + ('f, 'p) dataset" where
  "eager_repeat dataset count = Inr (RepeatDataset dataset count)"

definition eager_batch :: "('f, 'p) dataset \<Rightarrow> int \<Rightarrow> error + ('f, 'p) dataset" where
  "eager_batch dataset batch_sz =
     (if 0 < batch_sz then Inr (BatchDataset dataset batch_sz)
      else Inl (InvalidArgumentError ''Batch size must be greater than zero.''))"

definition eager_prefetch :: "('f, 'p) dataset \<Rightarrow> int \<Rightarrow> error + ('f, 'p) dataset" where
  "eager_prefetch dataset buffer_size =
     (if 0 \<le> buffer_size \<or> buffer_size = AUTOTUNE then Inr (PrefetchDataset dataset buffer_size)
      else Inl (InvalidArgumentError ''buffer_size must be >= 0 or AUTOTUNE.''))"

definition eager_tf_data ::
  "(string option, record_tensor \<Rightarrow> error + 'e,
    (string option, record_tensor \<Rightarrow> error + 'e) dataset) tf_data" where
  "eager_tf_data =
     \<lparr>tfrecord_dataset = eager_tfrecord_dataset, ds_map = eager_map,
      ds_shuffle = eager_shuffle, ds_repeat = eager_repeat,
      ds_batch = eager_batch, ds_prefetch = eager_prefetch\<rparr>"

subsection \<open>The trainable object\<close>

datatype loss = BinaryCrossentropy | SparseCategoricalCrossentropy

datatype metric = AUC | BinaryAccuracy | SparseCategoricalAccuracy

text \<open>
  The attributes of a \<^verbatim>\<open>BaseTrainable\<close> instance that the methods below read
  or write. \<^verbatim>\<open>VOC_SIZE\<close> is a dictionary from feature names to vocabulary
  sizes; the iterators are unset until \<^verbatim>\<open>create_train_data_iterator\<close> runs.
\<close>

record 'd trainable =
  LABEL :: string
  VOC_SIZE :: "string \<rightharpoonup> int"
  train_iterator :: "'d option"
  valid_iterator :: "'d option"

text \<open>
  The other attributes that \<^verbatim>\<open>__init__\<close> sets. The three feature collections
  come from \<^verbatim>\<open>get_summary\<close> and are only stored; \<open>'a\<close> is their type. The
  metrics and the loss are unset until \<^verbatim>\<open>__init__\<close> has built them.
\<close>

record ('d, 'a) trainable_object = "'d trainable" +
  self_batch_size :: int
  max_patient_passes :: "int option"
  CATEGORY_FEATURES :: 'a
  NUMERICAL_FEATURES :: 'a
  VARIABLE_FEATURES :: 'a
  metrics_object :: "metric list option"
  loss_object :: "loss option"

text \<open>\<^verbatim>\<open>self.VOC_SIZE[self.LABEL]\<close>: a missing key raises \<^verbatim>\<open>KeyError\<close>.\<close>

definition label_voc_size :: "('d, 'z) trainable_scheme \<Rightarrow> error + int" where
  "label_voc_size self =
     (case VOC_SIZE self (LABEL self) of
        None \<Rightarrow> Inl (KeyError (LABEL self))
      | Some n \<Rightarrow> Inr n)"

definition build_loss :: "('d, 'z) trainable_scheme \<Rightarrow> error + loss" where
  "build_loss self =
     (case label_voc_size self of
        Inl e \<Rightarrow> Inl e
      | Inr n \<Rightarrow> if n = 2 then Inr BinaryCrossentropy else Inr SparseCategoricalCrossentropy)"

definition build_metrics :: "('d, 'z) trainable_scheme \<Rightarrow> error + metric list" where
  "build_metrics self =
     (let metrics = [] in
      case label_voc_size self of
        Inl e \<Rightarrow> Inl e
      | Inr n \<Rightarrow>
          if n = 2 then Inr ((metrics @ [AUC]) @ [BinaryAccuracy])
          else Inr (metrics @ [SparseCategoricalAccuracy]))"

text \<open>The two class methods a subclass has to override.\<close>

definition get_summary :: "error + 's" where
  "get_summary = Inl (NotImplementedError ''parser(called by tfrecord_pipeline): not implemented!'')"

definition parser :: "'r \<Rightarrow> error + 'e" where
  "parser record = Inl (NotImplementedError ''parser(called by tfrecord_pipeline): not implemented!'')"

text \<open>
  \<^verbatim>\<open>create_train_data_iterator\<close> assigns each iterator when its pipeline has
  returned. A pipeline that raises ends the method, and the exception goes
  out with the object as it is then: with no iterator assigned when the first
  pipeline raised, with only the training iterator when the second did.
\<close>

definition create_train_data_iterator ::
  "(string option, 'p, 'd) tf_data \<Rightarrow> flags \<Rightarrow> 'p \<Rightarrow> ('d, 'z) trainable_scheme \<Rightarrow>
   (error \<times> ('d, 'z) trainable_scheme) + ('d, 'z) trainable_scheme" where
  "create_train_data_iterator tf FLAGS cls_parser self =
     (case tfrecord_pipeline tf FLAGS cls_parser (train_data FLAGS) (batch_size FLAGS) 1 True of
        Inl e \<Rightarrow> Inl (e, self)
      | Inr iterator \<Rightarrow>
          (let self = self\<lparr>train_iterator := Some iterator\<rparr> in
           case tfrecord_pipeline tf FLAGS cls_parser (valid_data FLAGS) (batch_size FLAGS) 1 False of
             Inl e \<Rightarrow> Inl (e, self)
           | Inr iterator \<Rightarrow> Inr (self\<lparr>valid_iterator := Some iterator\<rparr>)))"

subsection \<open>Optimization and training\<close>

text \<open>
  The callbacks that \<^verbatim>\<open>train\<close> builds, each with the arguments the source
  gives it: \<^verbatim>\<open>TensorBoard\<close> with \<^verbatim>\<open>log_dir\<close> and \<^verbatim>\<open>profile_batch\<close>,
  \<^verbatim>\<open>CSVLogger\<close> with the file name, \<^verbatim>\<open>append\<close> and \<^verbatim>\<open>separator\<close>,
  \<^verbatim>\<open>EarlyStopping\<close> with \<^verbatim>\<open>monitor\<close>, \<^verbatim>\<open>patience\<close>, \<^verbatim>\<open>mode\<close> and
  \<^verbatim>\<open>restore_best_weights\<close>, \<^verbatim>\<open>ModelCheckpoint\<close> with \<^verbatim>\<open>filepath\<close>,
  \<^verbatim>\<open>save_weights_only\<close>, \<^verbatim>\<open>monitor\<close>, \<^verbatim>\<open>mode\<close> and \<^verbatim>\<open>save_best_only\<close>,
  and \<^verbatim>\<open>LearningRateScheduler\<close> with the schedule.
\<close>

datatype callback =
    TensorBoard string "string option"
  | CSVLogger string bool string
  | LossAndErrorPrintingCallback
  | EarlyStopping string int string bool
  | ModelCheckpoint string bool string string bool
  | LearningRateScheduler "int \<Rightarrow> real \<Rightarrow> real"

text \<open>
  \<^verbatim>\<open>train\<close>. The model is the argument of the method; \<open>compile\<close> and
  \<open>fit\<close> are its two methods that \<^verbatim>\<open>train\<close> calls, \<open>'m\<close> is its type and
  \<open>'h\<close> the type of the history that \<^verbatim>\<open>fit\<close> returns. The three tests of a
  flag are Python truth tests: \<^verbatim>\<open>None\<close>, the empty string and zero fail them.
\<close>

definition train ::
  "(string option, 'p, 'd) tf_data \<Rightarrow>
   ('m \<Rightarrow> optimizer_object \<Rightarrow> loss \<Rightarrow> metric list \<Rightarrow> error + 'm) \<Rightarrow>
   ('m \<Rightarrow> 'd \<Rightarrow> 'd \<Rightarrow> int \<Rightarrow> callback list \<Rightarrow> error + 'h) \<Rightarrow>
   flags \<Rightarrow> 'p \<Rightarrow> ('d, 'a) trainable_object \<Rightarrow> 'm \<Rightarrow>
   (error \<times> ('d, 'a) trainable_object) + ('h \<times> ('d, 'a) trainable_object)" where
  "train tf compile fit FLAGS cls_parser self model =
     (case create_train_data_iterator tf FLAGS cls_parser self of
        Inl (e, self) \<Rightarrow> Inl (e, self)
      | Inr self \<Rightarrow>
     (case build_optimizer FLAGS of
        Inl e \<Rightarrow> Inl (e, self)
      | Inr the_optimizer \<Rightarrow>
     (case loss_object self of
        None \<Rightarrow> Inl (AttributeError ''loss_object'', self)
      | Some loss \<Rightarrow>
     (case metrics_object self of
        None \<Rightarrow> Inl (AttributeError ''metrics_object'', self)
      | Some metrics \<Rightarrow>
     (case compile model the_optimizer loss metrics of
        Inl e \<Rightarrow> Inl (e, self)
      | Inr model \<Rightarrow>
     (let callbacks =
            [TensorBoard (summaries_dir FLAGS) None,
             CSVLogger (summaries_dir FLAGS @ ''/log.csv'') True '','',
             LossAndErrorPrintingCallback];
          callbacks =
            (case profile_batch FLAGS of
               None \<Rightarrow> callbacks
             | Some b \<Rightarrow>
                 if b = [] then callbacks
                 else callbacks @ [TensorBoard (summaries_dir FLAGS) (Some b)]);
          callbacks =
            (case patient_valid_passes FLAGS of
               None \<Rightarrow> callbacks
             | Some n \<Rightarrow>
                 if n = 0 then callbacks
                 else callbacks @ [EarlyStopping ''val_loss'' n ''min'' True]);
          callbacks =
            (if checkpoint_path FLAGS = [] then callbacks
             else callbacks @
               [ModelCheckpoint (checkpoint_path FLAGS) True ''val_loss'' ''auto'' True]);
          callbacks =
            (if lr_schedule_flag FLAGS then callbacks @ [LearningRateScheduler lr_schedule]
             else callbacks)
      in
     (case train_iterator self of
        None \<Rightarrow> Inl (AttributeError ''train_iterator'', self)
      | Some training \<Rightarrow>
     (case valid_iterator self of
        None \<Rightarrow> Inl (AttributeError ''valid_iterator'', self)
      | Some validation \<Rightarrow>
     (case fit model training validation (epochs FLAGS) callbacks of
        Inl e \<Rightarrow> Inl (e, self)
      | Inr history \<Rightarrow> Inr (history, self))))))))))"

text \<open>
  \<^verbatim>\<open>_mylog\<close> (a name cannot begin with an underscore here). The three
  functions of \<^verbatim>\<open>tf\<close> and \<^verbatim>\<open>tf.math\<close> that it calls are parameters; \<open>'t\<close>
  is the type of a tensor. The literal \<^verbatim>\<open>1e-18\<close> is written \<open>1 / 10 ^ 18\<close>.
\<close>

definition mylog ::
  "('t \<Rightarrow> error + 't) \<Rightarrow> ('t \<Rightarrow> 't \<Rightarrow> error + 't) \<Rightarrow> (real \<Rightarrow> error + 't) \<Rightarrow> 't \<Rightarrow> error + 't" where
  "mylog tf_math_log tf_math_maximum tf_constant r =
     (case tf_constant (1 / 10 ^ 18) of
        Inl e \<Rightarrow> Inl e
      | Inr floor_value \<Rightarrow>
     (case tf_math_maximum r floor_value of
        Inl e \<Rightarrow> Inl e
      | Inr clipped \<Rightarrow> tf_math_log clipped))"

subsection \<open>Construction\<close>

text \<open>
  \<^verbatim>\<open>str\<close> of an integer: its decimal digits, after a minus sign when it is
  negative.
\<close>

function str_nat :: "nat \<Rightarrow> string" where
  "str_nat n =
     (if n < 10 then [''0123456789'' ! n]
      else str_nat (n div 10) @ [''0123456789'' ! (n mod 10)])"
  by pat_completeness auto
termination
  by (relation "measure (\<lambda>n. n)") auto

definition str_int :: "int \<Rightarrow> string" where
  "str_int i = (if i < 0 then CHR ''-'' # str_nat (nat (- i)) else str_nat (nat i))"

text \<open>
  What \<^verbatim>\<open>__init__\<close> and \<^verbatim>\<open>seed_everything\<close> do to the process and the
  file system goes through the calls below, which belong to the libraries and
  the operating system: they are parameters, acting on a state of type \<open>'w\<close>.
  In the order of the fields: \<^verbatim>\<open>tf.random.set_seed\<close>, an assignment to
  \<^verbatim>\<open>os.environ\<close>, \<^verbatim>\<open>os.path.exists\<close>, \<^verbatim>\<open>os.makedirs\<close>,
  \<^verbatim>\<open>use_absl_log_file\<close> of the log handler with the program name and the
  directory, \<^verbatim>\<open>logging.info\<close>, \<^verbatim>\<open>time.strftime\<close>, and
  \<^verbatim>\<open>sorted(FLAGS.flag_values_dict().items())\<close> with each value as
  \<^verbatim>\<open>format\<close> renders it (the dictionary holds every flag of the process,
  also those of other modules).
\<close>

record 'w runtime =
  set_seed :: "int \<Rightarrow> 'w \<Rightarrow> 'w"
  set_environ :: "string \<Rightarrow> string \<Rightarrow> 'w \<Rightarrow> 'w"
  path_exists :: "string \<Rightarrow> 'w \<Rightarrow> bool"
  makedirs :: "string \<Rightarrow> 'w \<Rightarrow> error + 'w"
  use_absl_log_file :: "string \<Rightarrow> string \<Rightarrow> 'w \<Rightarrow> error + 'w"
  logging_info :: "string \<Rightarrow> 'w \<Rightarrow> 'w"
  strftime :: "string \<Rightarrow> 'w \<Rightarrow> string"
  sorted_flag_items :: "'w \<Rightarrow> (string \<times> string) list"

definition seed_everything :: "'w runtime \<Rightarrow> int \<Rightarrow> 'w \<Rightarrow> 'w" where
  "seed_everything rt seed w =
     (let w = set_seed rt seed w
      in set_environ rt ''PYTHONHASHSEED'' (str_int seed) w)"

text \<open>
  \<^verbatim>\<open>object.__init__\<close> as \<^verbatim>\<open>super().__init__\<close> reaches it from a class that
  defines \<^verbatim>\<open>__init__\<close>: it takes no argument besides the instance.
\<close>

definition object_init :: "'x list \<Rightarrow> error + unit" where
  "object_init args =
     (if args = [] then Inr ()
      else Inl (TypeError
        ''object.__init__() takes exactly one argument (the instance to initialize)''))"

text \<open>\<^verbatim>\<open>'{:25}'.format(key)\<close>: the key, filled with blanks on the right to 25 characters.\<close>

definition format_25 :: "string \<Rightarrow> string" where
  "format_25 key = key @ replicate (25 - length key) CHR '' ''"

text \<open>
  \<^verbatim>\<open>__init__\<close>, as the function from the arguments to the new object.
  \<open>super_init\<close> is the \<^verbatim>\<open>__init__\<close> that follows \<^verbatim>\<open>BaseTrainable\<close> in the
  method resolution order of the object's class (for an instance of
  \<^verbatim>\<open>BaseTrainable\<close> itself, \<open>object_init\<close>), and \<open>cls_get_summary\<close> the
  \<^verbatim>\<open>get_summary\<close> of that class. \<open>flags_arg\<close> is the argument
  \<^verbatim>\<open>flags\<close>, which names the summaries directory; the attribute values come
  from the global \<open>FLAGS\<close>. The seed is the default of \<^verbatim>\<open>seed_everything\<close>,
  10. The state of the process is returned also when the method raises.
\<close>

definition init ::
  "(flags \<Rightarrow> error + unit) \<Rightarrow> (error + string \<times> 'a \<times> 'a \<times> (string \<rightharpoonup> int) \<times> 'a) \<Rightarrow>
   'w runtime \<Rightarrow> flags \<Rightarrow> flags \<Rightarrow> 'w \<Rightarrow> (error + ('d, 'a) trainable_object) \<times> 'w" where
  "init super_init cls_get_summary rt flags_arg FLAGS w =
     (case super_init flags_arg of
        Inl e \<Rightarrow> (Inl e, w)
      | Inr u \<Rightarrow>
     (let w = seed_everything rt 10 w in
     (case (if \<not> path_exists rt (summaries_dir flags_arg) w
            then makedirs rt (summaries_dir flags_arg) w else Inr w) of
        Inl e \<Rightarrow> (Inl e, w)
      | Inr w \<Rightarrow>
     (case use_absl_log_file rt ''DeePray'' (summaries_dir flags_arg) w of
        Inl e \<Rightarrow> (Inl e, w)
      | Inr w \<Rightarrow>
     (let w = logging_info rt
                ('' '' @ strftime rt ''%Y%m%d %H:%M:%S'' w @ '' Initialize training'') w;
          w = logging_info rt (CHR 0x09 # ''tf.app.flags.FLAGS:'') w;
          w = fold (\<lambda>(key, val) w. logging_info rt (CHR 0x09 # format_25 key @ ''= '' @ val) w)
                (sorted_flag_items rt w) w
      in
     (case cls_get_summary of
        Inl e \<Rightarrow> (Inl e, w)
      | Inr (label, category_features, numerical_features, voc_size, variable_features) \<Rightarrow>
     (let self =
            \<lparr>LABEL = label, VOC_SIZE = voc_size,
             train_iterator = None, valid_iterator = None,
             self_batch_size = batch_size FLAGS,
             max_patient_passes = patient_valid_passes FLAGS,
             CATEGORY_FEATURES = category_features,
             NUMERICAL_FEATURES = numerical_features,
             VARIABLE_FEATURES = variable_features,
             metrics_object = None, loss_object = None\<rparr>
      in
     (case build_metrics self of
        Inl e \<Rightarrow> (Inl e, w)
      | Inr metrics \<Rightarrow>
     (let self = self\<lparr>metrics_object := Some metrics\<rparr> in
     (case build_loss self of
        Inl e \<Rightarrow> (Inl e, w)
      | Inr the_loss \<Rightarrow> (Inr (self\<lparr>loss_object := Some the_loss\<rparr>), w)))))))))))"

subsection \<open>The neural factorization machine\<close>

text \<open>\<^verbatim>\<open>s.split(',')\<close>: the pieces between the commas, at least one, possibly empty.\<close>

fun str_split :: "char \<Rightarrow> string \<Rightarrow> string list" where
  "str_split sep [] = [[]]"
| "str_split sep (c # cs) =
     (if c = sep then [] # str_split sep cs
      else (case str_split sep cs of
              [] \<Rightarrow> [[c]]
            | w # ws \<Rightarrow> (c # w) # ws))"

text \<open>
  The comprehension \<^verbatim>\<open>[int(h) for h in ...]\<close>: the first piece that \<^verbatim>\<open>int\<close>
  rejects ends it with that exception. The builtin \<^verbatim>\<open>int\<close> belongs to the
  language, not to this code, and is the parameter \<open>py_int\<close>.
\<close>

fun int_each :: "(string \<Rightarrow> error + int) \<Rightarrow> string list \<Rightarrow> error + int list" where
  "int_each py_int [] = Inr []"
| "int_each py_int (h # hs) =
     (case py_int h of
        Inl e \<Rightarrow> Inl e
      | Inr n \<Rightarrow> (case int_each py_int hs of Inl e \<Rightarrow> Inl e | Inr ns \<Rightarrow> Inr (n # ns)))"

text \<open>
  The two layer attributes of a \<^verbatim>\<open>NeuralFactorizationMachine\<close>, unset until
  \<^verbatim>\<open>build\<close> runs. A layer is the function it computes.
\<close>

record ('a, 'b, 'c) neural_factorization_machine =
  B_Interaction_Layer :: "('a \<Rightarrow> 'b) option"
  Hidden_Layers :: "('b \<Rightarrow> 'c) option"

text \<open>
  \<^verbatim>\<open>build_fm\<close> and \<^verbatim>\<open>build_deep\<close> are inherited from
  \<^verbatim>\<open>FactorizationMachine\<close> and the flag \<^verbatim>\<open>deep_layers\<close> is declared there;
  all three are parameters. \<open>build_fm\<close> is the layer the call
  \<^verbatim>\<open>self.build_fm()\<close> returns, \<open>build_deep hidden\<close> the layer
  \<^verbatim>\<open>self.build_deep(hidden)\<close> returns. \<^verbatim>\<open>input_shape\<close> is not used.
\<close>

definition build ::
  "(string \<Rightarrow> error + int) \<Rightarrow> ('a \<Rightarrow> 'b) \<Rightarrow> (int list \<Rightarrow> 'b \<Rightarrow> 'c) \<Rightarrow> string \<Rightarrow>
   ('a, 'b, 'c) neural_factorization_machine \<Rightarrow>
   error + ('a, 'b, 'c) neural_factorization_machine" where
  "build py_int build_fm build_deep deep_layers self =
     (case int_each py_int (str_split (CHR '','') deep_layers) of
        Inl e \<Rightarrow> Inl e
      | Inr hidden \<Rightarrow>
          Inr (self\<lparr>B_Interaction_Layer := Some build_fm,
                    Hidden_Layers := Some (build_deep hidden)\<rparr>))"

text \<open>Reading an attribute that was never set raises \<^verbatim>\<open>AttributeError\<close>.\<close>

definition build_network ::
  "('a, 'b, 'c) neural_factorization_machine \<Rightarrow> 'a \<Rightarrow> bool option \<Rightarrow> error + 'c" where
  "build_network self features is_training =
     (case B_Interaction_Layer self of
        None \<Rightarrow> Inl (AttributeError ''B_Interaction_Layer'')
      | Some interaction \<Rightarrow>
          (let logit = interaction features in
           case Hidden_Layers self of
             None \<Rightarrow> Inl (AttributeError ''Hidden_Layers'')
           | Some hidden_layers \<Rightarrow> Inr (hidden_layers logit)))"

section \<open>Properties\<close>

declare lr_schedule_loop.simps [simp del]

subsection \<open>The schedule loop is a search of the table\<close>

lemma lr_schedule_loop_find:
  "lr_schedule_loop i epoch lr =
     (case find (\<lambda>p. fst p = epoch) (drop i LR_SCHEDULE) of
        None \<Rightarrow> lr
      | Some p \<Rightarrow> snd p)"
proof (induction i epoch lr rule: lr_schedule_loop.induct)
  case (1 i epoch lr)
  show ?case
  proof (cases "i < length LR_SCHEDULE")
    case False
    then show ?thesis
      by (subst lr_schedule_loop.simps) simp
  next
    case inside: True
    then have entry: "drop i LR_SCHEDULE = LR_SCHEDULE ! i # drop (Suc i) LR_SCHEDULE"
      by (simp add: Cons_nth_drop_Suc)
    show ?thesis
    proof (cases "epoch = fst (LR_SCHEDULE ! i)")
      case True
      with inside show ?thesis
        by (subst lr_schedule_loop.simps) (simp add: entry)
    next
      case False
      with inside "1.IH" have
        "lr_schedule_loop (Suc i) epoch lr =
           (case find (\<lambda>p. fst p = epoch) (drop (Suc i) LR_SCHEDULE) of
              None \<Rightarrow> lr
            | Some p \<Rightarrow> snd p)"
        by simp
      with False inside show ?thesis
        by (subst lr_schedule_loop.simps) (auto simp: entry)
    qed
  qed
qed

lemma lr_schedule_cases:
  "lr_schedule epoch lr =
     (if epoch = 3 then 0.05
      else if epoch = 6 then 0.01
      else if epoch = 9 then 0.005
      else if epoch = 12 then 0.001
      else lr)"
  by (simp add: lr_schedule_def lr_schedule_loop_find LR_SCHEDULE_def)


subsection \<open>Auxiliary facts\<close>

declare str_nat.simps [simp del]

lemma str_int_10: "str_int 10 = ''10''"
proof -
  have "str_nat 1 = ''1''"
    by (subst str_nat.simps) simp
  then have "str_nat 10 = ''10''"
    by (subst str_nat.simps) simp
  then show ?thesis
    by (simp add: str_int_def)
qed

lemma eager_ops:
  "tfrecord_dataset eager_tf_data = eager_tfrecord_dataset"
  "ds_map eager_tf_data = eager_map"
  "ds_shuffle eager_tf_data = eager_shuffle"
  "ds_repeat eager_tf_data = eager_repeat"
  "ds_batch eager_tf_data = eager_batch"
  "ds_prefetch eager_tf_data = eager_prefetch"
  by (simp_all add: eager_tf_data_def)

lemma tfrecord_pipeline_ignores_epochs:
  "tfrecord_pipeline tf (FLAGS\<lparr>epochs := e\<rparr>) cls_parser tfrecord_files batch_sz n_epochs shuffle =
   tfrecord_pipeline tf FLAGS cls_parser tfrecord_files batch_sz n_epochs shuffle"
  by (simp add: tfrecord_pipeline_def cong: sum.case_cong if_cong)

lemma eager_pipeline_no_file:
  "tfrecord_pipeline eager_tf_data FLAGS cls_parser None batch_sz n_epochs shuffle =
   Inl (ValueError ''Attempt to convert a value (None) with an unsupported type to a Tensor.'')"
  by (simp add: tfrecord_pipeline_def eager_ops eager_tfrecord_dataset_def)

lemma eager_pipeline_stub_parser:
  "tfrecord_pipeline eager_tf_data FLAGS parser (Some file) batch_sz n_epochs shuffle =
   Inl (NotImplementedError ''parser(called by tfrecord_pipeline): not implemented!'')"
  by (simp add: tfrecord_pipeline_def eager_ops eager_tfrecord_dataset_def eager_map_def parser_def)

lemma eager_pipeline_default:
  "tfrecord_pipeline eager_tf_data
     ((default_flags TIME_STAMP rate)\<lparr>train_data := tr, valid_data := va\<rparr>)
     Inr (Some file) 1 1 shuffle =
   Inr (PrefetchDataset
          (BatchDataset
             (RepeatDataset
                (if shuffle
                 then ShuffleDataset (MapDataset (TFRecordDataset [Some file] None) Inr 8) 512
                 else MapDataset (TFRecordDataset [Some file] None) Inr 8)
                1)
             1)
          4096)"
  by (simp add: tfrecord_pipeline_def eager_ops default_flags_def eager_tfrecord_dataset_def
      eager_map_def eager_shuffle_def eager_repeat_def eager_batch_def eager_prefetch_def
      AUTOTUNE_def)

subsection \<open>Learning-rate schedule\<close>

text \<open>
  C1. At each of the four epochs of the table, 3, 6, 9 and 12,
  \<open>lr_schedule\<close> returns the rate the table gives for it, 0.05, 0.01, 0.005
  and 0.001, whatever \<open>lr\<close> is; and at every epoch below 3 or above 12 it
  returns \<open>lr\<close> unchanged.
\<close>

theorem lr_schedule_boundaries_and_outside:
  "lr_schedule 3 lr = 0.05 \<and>
   lr_schedule 6 lr = 0.01 \<and>
   lr_schedule 9 lr = 0.005 \<and>
   lr_schedule 12 lr = 0.001 \<and>
   (epoch < 3 \<or> epoch > 12 \<longrightarrow> lr_schedule epoch lr = lr)"
  by (simp add: lr_schedule_cases)

theorem lr_schedule_boundaries_and_outside_witness:
  "((13::int) < 3 \<or> (13::int) > 12) \<and>
   lr_schedule 13 0.3 = 0.3 \<and>
   lr_schedule 3 0.3 = 0.05 \<and>
   lr_schedule 12 0.3 = 0.001"
  using lr_schedule_boundaries_and_outside [of "0.3" 13] by simp

text \<open>
  C10. At every epoch that is none of 3, 6, 9 and 12, so also at the epochs
  strictly between the first and the last entry of the table,
  \<open>lr_schedule\<close> returns \<open>lr\<close> unchanged.
\<close>

theorem lr_schedule_identity_off_boundaries:
  "epoch \<notin> {3, 6, 9, 12} \<Longrightarrow> lr_schedule epoch lr = lr"
  by (simp add: lr_schedule_cases)

theorem lr_schedule_identity_off_boundaries_witness:
  "(7::int) \<notin> {3, 6, 9, 12} \<and> lr_schedule 7 0.3 = 0.3"
  using lr_schedule_identity_off_boundaries [of 7 "0.3"] by simp

subsection \<open>Optimizer selection\<close>

text \<open>
  C2. With the optimizer flag set to one of the seven names, \<open>build_optimizer\<close>
  returns an optimizer of the class of that name, built with the value of the
  \<^verbatim>\<open>learning_rate\<close> flag as its learning rate.
\<close>

theorem build_optimizer_named:
  "build_optimizer (FLAGS\<lparr>optimizer := ''adam''\<rparr>) = Inr (Optimizer Adam (learning_rate FLAGS)) \<and>
   build_optimizer (FLAGS\<lparr>optimizer := ''adadelta''\<rparr>) = Inr (Optimizer Adadelta (learning_rate FLAGS)) \<and>
   build_optimizer (FLAGS\<lparr>optimizer := ''adagrad''\<rparr>) = Inr (Optimizer Adagrad (learning_rate FLAGS)) \<and>
   build_optimizer (FLAGS\<lparr>optimizer := ''lazyadam''\<rparr>) = Inr (Optimizer LazyAdam (learning_rate FLAGS)) \<and>
   build_optimizer (FLAGS\<lparr>optimizer := ''ftrl''\<rparr>) = Inr (Optimizer Ftrl (learning_rate FLAGS)) \<and>
   build_optimizer (FLAGS\<lparr>optimizer := ''sgd''\<rparr>) = Inr (Optimizer SGD (learning_rate FLAGS)) \<and>
   build_optimizer (FLAGS\<lparr>optimizer := ''RMSprop''\<rparr>) = Inr (Optimizer RMSprop (learning_rate FLAGS))"
  by (simp add: build_optimizer_def)

text \<open>
  C3. With the optimizer flag set to anything but the seven names,
  \<open>build_optimizer\<close> raises \<^verbatim>\<open>ValueError\<close>, and the message contains the
  value of the flag.
\<close>

theorem build_optimizer_unrecognized:
  "optimizer FLAGS \<notin>
     {''adam'', ''adadelta'', ''adagrad'', ''lazyadam'', ''ftrl'', ''sgd'', ''RMSprop''} \<Longrightarrow>
   build_optimizer FLAGS =
     Inl (ValueError (''--optimizer '' @ optimizer FLAGS @ '' was not found.''))"
  by (simp add: build_optimizer_def)

theorem build_optimizer_unrecognized_witness:
  "''rmsprop'' \<notin>
     {''adam'', ''adadelta'', ''adagrad'', ''lazyadam'', ''ftrl'', ''sgd'', ''RMSprop''} \<and>
   build_optimizer
     \<lparr>gzip = False, lr_schedule_flag = False, optimizer = ''rmsprop'',
      patient_valid_passes = None, profile_batch = None, checkpoint_path = ''cpk'',
      summaries_dir = ''summaries'', train_data = Some ''train.tfrecord'',
      valid_data = Some ''valid.tfrecord'', batch_size = 1, epochs = 1,
      parallel_parse = Some 8, shuffle_buffer = 512, prefetch_buffer = 4096,
      learning_rate = 0.001\<rparr> =
     Inl (ValueError ''--optimizer rmsprop was not found.'')"
  using build_optimizer_unrecognized
    [of "\<lparr>gzip = False, lr_schedule_flag = False, optimizer = ''rmsprop'',
      patient_valid_passes = None, profile_batch = None, checkpoint_path = ''cpk'',
      summaries_dir = ''summaries'', train_data = Some ''train.tfrecord'',
      valid_data = Some ''valid.tfrecord'', batch_size = 1, epochs = 1,
      parallel_parse = Some 8, shuffle_buffer = 512, prefetch_buffer = 4096,
      learning_rate = 0.001\<rparr>"]
  by simp

text \<open>
  C8. The enum of the optimizer flag lists exactly the seven names that
  \<open>build_optimizer\<close> handles, so with a flag value that the enum accepts
  \<open>build_optimizer\<close> returns an optimizer and does not raise \<^verbatim>\<open>ValueError\<close>.
\<close>

theorem validated_optimizer_never_value_error:
  "set optimizer_enum_values =
     {''adam'', ''adadelta'', ''adagrad'', ''lazyadam'', ''ftrl'', ''sgd'', ''RMSprop''} \<and>
   (optimizer_flag_valid FLAGS \<longrightarrow>
      (\<exists>opt. build_optimizer FLAGS = Inr opt) \<and>
      (\<forall>msg. build_optimizer FLAGS \<noteq> Inl (ValueError msg)))"
  by (auto simp add: optimizer_flag_valid_def optimizer_enum_values_def build_optimizer_def)

theorem validated_optimizer_never_value_error_witness:
  "optimizer_flag_valid
     \<lparr>gzip = False, lr_schedule_flag = False, optimizer = ''lazyadam'',
      patient_valid_passes = None, profile_batch = None, checkpoint_path = ''cpk'',
      summaries_dir = ''summaries'', train_data = Some ''train.tfrecord'',
      valid_data = Some ''valid.tfrecord'', batch_size = 1, epochs = 1,
      parallel_parse = Some 8, shuffle_buffer = 512, prefetch_buffer = 4096,
      learning_rate = 0.001\<rparr> \<and>
   (\<forall>msg. build_optimizer
     \<lparr>gzip = False, lr_schedule_flag = False, optimizer = ''lazyadam'',
      patient_valid_passes = None, profile_batch = None, checkpoint_path = ''cpk'',
      summaries_dir = ''summaries'', train_data = Some ''train.tfrecord'',
      valid_data = Some ''valid.tfrecord'', batch_size = 1, epochs = 1,
      parallel_parse = Some 8, shuffle_buffer = 512, prefetch_buffer = 4096,
      learning_rate = 0.001\<rparr> \<noteq> Inl (ValueError msg))"
  using validated_optimizer_never_value_error
    [of "\<lparr>gzip = False, lr_schedule_flag = False, optimizer = ''lazyadam'',
      patient_valid_passes = None, profile_batch = None, checkpoint_path = ''cpk'',
      summaries_dir = ''summaries'', train_data = Some ''train.tfrecord'',
      valid_data = Some ''valid.tfrecord'', batch_size = 1, epochs = 1,
      parallel_parse = Some 8, shuffle_buffer = 512, prefetch_buffer = 4096,
      learning_rate = 0.001\<rparr>"]
  by (simp add: optimizer_flag_valid_def optimizer_enum_values_def)

subsection \<open>Loss and metrics\<close>

text \<open>
  C4. When the label has a vocabulary size, \<open>build_loss\<close> and
  \<open>build_metrics\<close> take the binary branch exactly when that size is two:
  the loss is \<open>BinaryCrossentropy\<close> and the metrics are \<open>AUC\<close> followed by
  \<open>BinaryAccuracy\<close> when it is two, and the loss is
  \<open>SparseCategoricalCrossentropy\<close> and the only metric
  \<open>SparseCategoricalAccuracy\<close> when it is anything else.
\<close>

theorem build_loss_metrics_binary_branch:
  "VOC_SIZE self (LABEL self) = Some n \<Longrightarrow>
   build_loss self =
     Inr (if n = 2 then BinaryCrossentropy else SparseCategoricalCrossentropy) \<and>
   build_metrics self =
     Inr (if n = 2 then [AUC, BinaryAccuracy] else [SparseCategoricalAccuracy])"
  by (simp add: build_loss_def build_metrics_def label_voc_size_def)

theorem build_loss_metrics_binary_branch_witness:
  "build_loss
     \<lparr>LABEL = ''clicked'', VOC_SIZE = [''clicked'' \<mapsto> 2, ''city'' \<mapsto> 300],
      train_iterator = None, valid_iterator = None :: (string option, unit) dataset option\<rparr> =
     Inr BinaryCrossentropy \<and>
   build_metrics
     \<lparr>LABEL = ''clicked'', VOC_SIZE = [''clicked'' \<mapsto> 2, ''city'' \<mapsto> 300],
      train_iterator = None, valid_iterator = None :: (string option, unit) dataset option\<rparr> =
     Inr [AUC, BinaryAccuracy] \<and>
   build_loss
     \<lparr>LABEL = ''city'', VOC_SIZE = [''clicked'' \<mapsto> 2, ''city'' \<mapsto> 300],
      train_iterator = None, valid_iterator = None :: (string option, unit) dataset option\<rparr> =
     Inr SparseCategoricalCrossentropy \<and>
   build_metrics
     \<lparr>LABEL = ''city'', VOC_SIZE = [''clicked'' \<mapsto> 2, ''city'' \<mapsto> 300],
      train_iterator = None, valid_iterator = None :: (string option, unit) dataset option\<rparr> =
     Inr [SparseCategoricalAccuracy]"
  using
    build_loss_metrics_binary_branch
      [of "\<lparr>LABEL = ''clicked'', VOC_SIZE = [''clicked'' \<mapsto> 2, ''city'' \<mapsto> 300],
            train_iterator = None,
            valid_iterator = None :: (string option, unit) dataset option\<rparr>" 2]
    build_loss_metrics_binary_branch
      [of "\<lparr>LABEL = ''city'', VOC_SIZE = [''clicked'' \<mapsto> 2, ''city'' \<mapsto> 300],
            train_iterator = None,
            valid_iterator = None :: (string option, unit) dataset option\<rparr>" 300]
  by simp

subsection \<open>Dataset pipeline\<close>

text \<open>
  C6, as the code has it. \<open>tfrecord_pipeline\<close> calls the record source and
  then, each on the dataset of the call before, \<^verbatim>\<open>map\<close> with the parser of
  the class and the parallelism of the \<^verbatim>\<open>parallel_parse\<close> flag (\<open>AUTOTUNE\<close>
  when that flag is unset), \<^verbatim>\<open>shuffle\<close> with the \<^verbatim>\<open>shuffle_buffer\<close> flag,
  \<^verbatim>\<open>repeat\<close> with the epoch count, \<^verbatim>\<open>batch\<close> with the batch size and
  \<^verbatim>\<open>prefetch\<close> with the \<^verbatim>\<open>prefetch_buffer\<close> flag; without shuffling it
  leaves \<^verbatim>\<open>shuffle\<close> out and calls the other four in the same order. It
  returns a dataset exactly when every one of these calls returns one, and the
  dataset is then the result of the last call. It raises an exception exactly
  when that exception is raised by the first call that raises, and the calls
  after that one are not made. This holds whatever the library does with a
  file argument, a batch size or an epoch count.
\<close>

theorem tfrecord_pipeline_operators:
  "(tfrecord_pipeline tf FLAGS cls_parser tfrecord_files batch_sz n_epochs True = Inr result \<longleftrightarrow>
     (\<exists>d0 d1 d2 d3 d4.
        tfrecord_dataset tf [tfrecord_files] (if gzip FLAGS then Some GZIP else None) = Inr d0 \<and>
        ds_map tf d0 cls_parser
          (case parallel_parse FLAGS of None \<Rightarrow> AUTOTUNE | Some n \<Rightarrow> n) = Inr d1 \<and>
        ds_shuffle tf d1 (shuffle_buffer FLAGS) = Inr d2 \<and>
        ds_repeat tf d2 n_epochs = Inr d3 \<and>
        ds_batch tf d3 batch_sz = Inr d4 \<and>
        ds_prefetch tf d4 (prefetch_buffer FLAGS) = Inr result)) \<and>
   (tfrecord_pipeline tf FLAGS cls_parser tfrecord_files batch_sz n_epochs False = Inr result \<longleftrightarrow>
     (\<exists>d0 d1 d3 d4.
        tfrecord_dataset tf [tfrecord_files] (if gzip FLAGS then Some GZIP else None) = Inr d0 \<and>
        ds_map tf d0 cls_parser
          (case parallel_parse FLAGS of None \<Rightarrow> AUTOTUNE | Some n \<Rightarrow> n) = Inr d1 \<and>
        ds_repeat tf d1 n_epochs = Inr d3 \<and>
        ds_batch tf d3 batch_sz = Inr d4 \<and>
        ds_prefetch tf d4 (prefetch_buffer FLAGS) = Inr result)) \<and>
   (tfrecord_pipeline tf FLAGS cls_parser tfrecord_files batch_sz n_epochs shuffle = Inl err \<longleftrightarrow>
     tfrecord_dataset tf [tfrecord_files] (if gzip FLAGS then Some GZIP else None) = Inl err \<or>
     (\<exists>d0. tfrecord_dataset tf [tfrecord_files] (if gzip FLAGS then Some GZIP else None) = Inr d0 \<and>
       (ds_map tf d0 cls_parser
          (case parallel_parse FLAGS of None \<Rightarrow> AUTOTUNE | Some n \<Rightarrow> n) = Inl err \<or>
        (\<exists>d1. ds_map tf d0 cls_parser
                 (case parallel_parse FLAGS of None \<Rightarrow> AUTOTUNE | Some n \<Rightarrow> n) = Inr d1 \<and>
          (shuffle \<and> ds_shuffle tf d1 (shuffle_buffer FLAGS) = Inl err \<or>
           (\<exists>d2. (if shuffle then ds_shuffle tf d1 (shuffle_buffer FLAGS) else Inr d1) = Inr d2 \<and>
             (ds_repeat tf d2 n_epochs = Inl err \<or>
              (\<exists>d3. ds_repeat tf d2 n_epochs = Inr d3 \<and>
                (ds_batch tf d3 batch_sz = Inl err \<or>
                 (\<exists>d4. ds_batch tf d3 batch_sz = Inr d4 \<and>
                    ds_prefetch tf d4 (prefetch_buffer FLAGS) = Inl err))))))))))"
proof (intro conjI)
  show "tfrecord_pipeline tf FLAGS cls_parser tfrecord_files batch_sz n_epochs True = Inr result \<longleftrightarrow>
     (\<exists>d0 d1 d2 d3 d4.
        tfrecord_dataset tf [tfrecord_files] (if gzip FLAGS then Some GZIP else None) = Inr d0 \<and>
        ds_map tf d0 cls_parser
          (case parallel_parse FLAGS of None \<Rightarrow> AUTOTUNE | Some n \<Rightarrow> n) = Inr d1 \<and>
        ds_shuffle tf d1 (shuffle_buffer FLAGS) = Inr d2 \<and>
        ds_repeat tf d2 n_epochs = Inr d3 \<and>
        ds_batch tf d3 batch_sz = Inr d4 \<and>
        ds_prefetch tf d4 (prefetch_buffer FLAGS) = Inr result)"
    by (auto simp add: tfrecord_pipeline_def split: sum.splits)
next
  show "tfrecord_pipeline tf FLAGS cls_parser tfrecord_files batch_sz n_epochs False = Inr result \<longleftrightarrow>
     (\<exists>d0 d1 d3 d4.
        tfrecord_dataset tf [tfrecord_files] (if gzip FLAGS then Some GZIP else None) = Inr d0 \<and>
        ds_map tf d0 cls_parser
          (case parallel_parse FLAGS of None \<Rightarrow> AUTOTUNE | Some n \<Rightarrow> n) = Inr d1 \<and>
        ds_repeat tf d1 n_epochs = Inr d3 \<and>
        ds_batch tf d3 batch_sz = Inr d4 \<and>
        ds_prefetch tf d4 (prefetch_buffer FLAGS) = Inr result)"
    by (auto simp add: tfrecord_pipeline_def split: sum.splits)
next
  show "tfrecord_pipeline tf FLAGS cls_parser tfrecord_files batch_sz n_epochs shuffle = Inl err \<longleftrightarrow>
     tfrecord_dataset tf [tfrecord_files] (if gzip FLAGS then Some GZIP else None) = Inl err \<or>
     (\<exists>d0. tfrecord_dataset tf [tfrecord_files] (if gzip FLAGS then Some GZIP else None) = Inr d0 \<and>
       (ds_map tf d0 cls_parser
          (case parallel_parse FLAGS of None \<Rightarrow> AUTOTUNE | Some n \<Rightarrow> n) = Inl err \<or>
        (\<exists>d1. ds_map tf d0 cls_parser
                 (case parallel_parse FLAGS of None \<Rightarrow> AUTOTUNE | Some n \<Rightarrow> n) = Inr d1 \<and>
          (shuffle \<and> ds_shuffle tf d1 (shuffle_buffer FLAGS) = Inl err \<or>
           (\<exists>d2. (if shuffle then ds_shuffle tf d1 (shuffle_buffer FLAGS) else Inr d1) = Inr d2 \<and>
             (ds_repeat tf d2 n_epochs = Inl err \<or>
              (\<exists>d3. ds_repeat tf d2 n_epochs = Inr d3 \<and>
                (ds_batch tf d3 batch_sz = Inl err \<or>
                 (\<exists>d4. ds_batch tf d3 batch_sz = Inr d4 \<and>
                    ds_prefetch tf d4 (prefetch_buffer FLAGS) = Inl err)))))))))"
    by (cases shuffle) (auto simp add: tfrecord_pipeline_def split: sum.splits)
qed

theorem tfrecord_pipeline_operators_witness:
  "tfrecord_pipeline eager_tf_data (default_flags ''20200101-000000'' 0.001) Inr
     (Some ''train.tfrecord'') 32 1 True =
   Inr (PrefetchDataset
          (BatchDataset
             (RepeatDataset
                (ShuffleDataset
                   (MapDataset (TFRecordDataset [Some ''train.tfrecord''] None) Inr 8)
                   512)
                1)
             32)
          4096)"
  using tfrecord_pipeline_operators
    [where tf = eager_tf_data and FLAGS = "default_flags ''20200101-000000'' 0.001"
       and cls_parser = Inr and tfrecord_files = "Some ''train.tfrecord''"
       and batch_sz = 32 and n_epochs = 1
       and result =
         "PrefetchDataset
            (BatchDataset
               (RepeatDataset
                  (ShuffleDataset
                     (MapDataset (TFRecordDataset [Some ''train.tfrecord''] None) Inr 8)
                     512)
                  1)
               32)
            4096"]
  by (simp add: eager_ops default_flags_def eager_tfrecord_dataset_def eager_map_def
      eager_shuffle_def eager_repeat_def eager_batch_def eager_prefetch_def AUTOTUNE_def)

text \<open>
  C6 as the claim states it, for every batch size, fails: at batch size 0 the
  \<^verbatim>\<open>batch\<close> operator rejects its argument, the call raises, and no dataset
  is built; \<^verbatim>\<open>prefetch\<close> is never applied.
\<close>

theorem tfrecord_pipeline_batch_size_zero:
  "tfrecord_pipeline eager_tf_data (default_flags ''20200101-000000'' 0.001) Inr
     (Some ''train.tfrecord'') 0 1 True =
   Inl (InvalidArgumentError ''Batch size must be greater than zero.'')"
  by (simp add: tfrecord_pipeline_def eager_ops default_flags_def eager_tfrecord_dataset_def
      eager_map_def eager_shuffle_def eager_repeat_def eager_batch_def AUTOTUNE_def)

text \<open>
  C9, as the code has it. \<open>create_train_data_iterator\<close> calls the pipeline on
  \<^verbatim>\<open>train_data\<close> with shuffling and then on \<^verbatim>\<open>valid_data\<close> without, both
  with the \<^verbatim>\<open>batch_size\<close> flag and the epoch count 1, whatever the
  \<^verbatim>\<open>epochs\<close> flag is. It returns exactly when both calls return, and the two
  iterators are then the two datasets. When the first call raises, the method
  raises the same exception and assigns neither iterator; when only the second
  raises, it raises that exception with the training iterator assigned alone.
\<close>

theorem create_train_data_iterator_iterators:
  "(create_train_data_iterator tf (FLAGS\<lparr>epochs := e\<rparr>) cls_parser self = Inr self' \<longleftrightarrow>
     (\<exists>training validation.
        tfrecord_pipeline tf FLAGS cls_parser (train_data FLAGS) (batch_size FLAGS) 1 True =
          Inr training \<and>
        tfrecord_pipeline tf FLAGS cls_parser (valid_data FLAGS) (batch_size FLAGS) 1 False =
          Inr validation \<and>
        self' = self\<lparr>train_iterator := Some training, valid_iterator := Some validation\<rparr>)) \<and>
   (tfrecord_pipeline tf FLAGS cls_parser (train_data FLAGS) (batch_size FLAGS) 1 True = Inl err \<longrightarrow>
      create_train_data_iterator tf (FLAGS\<lparr>epochs := e\<rparr>) cls_parser self = Inl (err, self)) \<and>
   (tfrecord_pipeline tf FLAGS cls_parser (train_data FLAGS) (batch_size FLAGS) 1 True =
      Inr training \<and>
    tfrecord_pipeline tf FLAGS cls_parser (valid_data FLAGS) (batch_size FLAGS) 1 False =
      Inl err \<longrightarrow>
      create_train_data_iterator tf (FLAGS\<lparr>epochs := e\<rparr>) cls_parser self =
        Inl (err, self\<lparr>train_iterator := Some training\<rparr>))"
  by (auto simp add: create_train_data_iterator_def tfrecord_pipeline_ignores_epochs Let_def
      split: sum.splits)

theorem create_train_data_iterator_iterators_witness:
  "create_train_data_iterator eager_tf_data
     ((default_flags ''20200101-000000'' 0.001)
        \<lparr>train_data := Some ''train.tfrecord'', valid_data := Some ''valid.tfrecord'',
         epochs := 5\<rparr>)
     Inr
     \<lparr>LABEL = ''clicked'', VOC_SIZE = map_of [(''clicked'', 2)],
      train_iterator = None, valid_iterator = None\<rparr> =
   Inr \<lparr>LABEL = ''clicked'', VOC_SIZE = map_of [(''clicked'', 2)],
        train_iterator =
          Some (PrefetchDataset (BatchDataset (RepeatDataset (ShuffleDataset
            (MapDataset (TFRecordDataset [Some ''train.tfrecord''] None) Inr 8) 512) 1) 1) 4096),
        valid_iterator =
          Some (PrefetchDataset (BatchDataset (RepeatDataset
            (MapDataset (TFRecordDataset [Some ''valid.tfrecord''] None) Inr 8) 1) 1) 4096)\<rparr>"
proof -
  let ?FLAGS = "(default_flags ''20200101-000000'' 0.001)
        \<lparr>train_data := Some ''train.tfrecord'', valid_data := Some ''valid.tfrecord''\<rparr>"
  have files: "train_data ?FLAGS = Some ''train.tfrecord''"
    "valid_data ?FLAGS = Some ''valid.tfrecord''" "batch_size ?FLAGS = 1"
    by (simp_all add: default_flags_def)
  have training:
    "tfrecord_pipeline eager_tf_data ?FLAGS Inr (train_data ?FLAGS) (batch_size ?FLAGS) 1 True =
     Inr (PrefetchDataset (BatchDataset (RepeatDataset (ShuffleDataset
          (MapDataset (TFRecordDataset [Some ''train.tfrecord''] None) Inr 8) 512) 1) 1) 4096)"
    unfolding files by (simp add: eager_pipeline_default)
  have validation:
    "tfrecord_pipeline eager_tf_data ?FLAGS Inr (valid_data ?FLAGS) (batch_size ?FLAGS) 1 False =
     Inr (PrefetchDataset (BatchDataset (RepeatDataset
          (MapDataset (TFRecordDataset [Some ''valid.tfrecord''] None) Inr 8) 1) 1) 4096)"
    unfolding files by (simp add: eager_pipeline_default)
  from training validation
    create_train_data_iterator_iterators
      [where tf = eager_tf_data and FLAGS = ?FLAGS and e = 5 and cls_parser = Inr
       and self = "\<lparr>LABEL = ''clicked'', VOC_SIZE = map_of [(''clicked'', 2)],
         train_iterator = None, valid_iterator = None\<rparr>"
       and self' = "\<lparr>LABEL = ''clicked'', VOC_SIZE = map_of [(''clicked'', 2)],
         train_iterator =
           Some (PrefetchDataset (BatchDataset (RepeatDataset (ShuffleDataset
             (MapDataset (TFRecordDataset [Some ''train.tfrecord''] None) Inr 8) 512) 1) 1) 4096),
         valid_iterator =
           Some (PrefetchDataset (BatchDataset (RepeatDataset
             (MapDataset (TFRecordDataset [Some ''valid.tfrecord''] None) Inr 8) 1) 1) 4096)\<rparr>"]
  show ?thesis
    by simp
qed

text \<open>
  C9 as the claim states it, that the method always builds both iterators,
  fails at the defaults of the module: \<^verbatim>\<open>train_data\<close> is \<^verbatim>\<open>None\<close>, the
  record source rejects it, and the method raises with both iterators unset.
\<close>

theorem create_train_data_iterator_at_defaults:
  "create_train_data_iterator eager_tf_data (default_flags ''20200101-000000'' 0.001) Inr
     \<lparr>LABEL = ''clicked'', VOC_SIZE = map_of [(''clicked'', 2)],
      train_iterator = None, valid_iterator = None\<rparr> =
   Inl (ValueError ''Attempt to convert a value (None) with an unsupported type to a Tensor.'',
        \<lparr>LABEL = ''clicked'', VOC_SIZE = map_of [(''clicked'', 2)],
         train_iterator = None, valid_iterator = None\<rparr>)"
  by (simp add: create_train_data_iterator_def default_flags_def eager_pipeline_no_file)

subsection \<open>The methods left to subclasses\<close>

text \<open>
  C5. \<open>get_summary\<close> and \<open>parser\<close> of the base class raise
  \<^verbatim>\<open>NotImplementedError\<close> at every call, whatever the argument, and return
  nothing. No other of the twelve methods of the class does so at every call:
  each of the other ten has a call on the base class that ends otherwise.
  \<^verbatim>\<open>__init__\<close> raises \<^verbatim>\<open>TypeError\<close>, from \<^verbatim>\<open>object.__init__\<close>;
  \<open>seed_everything\<close>, \<open>build_loss\<close>, \<open>build_metrics\<close>, \<^verbatim>\<open>_mylog\<close>,
  \<open>build_optimizer\<close> and \<open>lr_schedule\<close> return;
  \<open>tfrecord_pipeline\<close> raises \<^verbatim>\<open>ValueError\<close> when the file is \<^verbatim>\<open>None\<close>,
  and so do \<open>create_train_data_iterator\<close> and \<open>train\<close> at the default flags,
  where \<^verbatim>\<open>train_data\<close> is \<^verbatim>\<open>None\<close>. With a file that the record source
  accepts, \<open>tfrecord_pipeline\<close> on the base class raises the
  \<^verbatim>\<open>NotImplementedError\<close> of \<open>parser\<close>, which \<^verbatim>\<open>map\<close> meets when it
  traces the parser: on the base class it never returns, but it is the stub
  that raises, reached through \<^verbatim>\<open>map\<close>.
\<close>

theorem stubs_not_implemented:
  "(get_summary :: error + 's) =
     Inl (NotImplementedError ''parser(called by tfrecord_pipeline): not implemented!'') \<and>
   (\<forall>record :: 'r. (parser record :: error + 'e) =
     Inl (NotImplementedError ''parser(called by tfrecord_pipeline): not implemented!'')) \<and>
   (init (\<lambda>f. object_init [f]) get_summary rt flags_arg FLAGS w
      :: (error + ('d, 'a) trainable_object) \<times> 'w) =
     (Inl (TypeError
        ''object.__init__() takes exactly one argument (the instance to initialize)''), w) \<and>
   seed_everything rt 10 w = set_environ rt ''PYTHONHASHSEED'' ''10'' (set_seed rt 10 w) \<and>
   build_loss
     \<lparr>LABEL = ''clicked'', VOC_SIZE = map_of [(''clicked'', 2)],
      train_iterator = None :: 'd option, valid_iterator = None\<rparr> = Inr BinaryCrossentropy \<and>
   build_metrics
     \<lparr>LABEL = ''clicked'', VOC_SIZE = map_of [(''clicked'', 2)],
      train_iterator = None :: 'd option, valid_iterator = None\<rparr> = Inr [AUC, BinaryAccuracy] \<and>
   tfrecord_pipeline eager_tf_data FLAGS (parser :: record_tensor \<Rightarrow> error + 'x)
       None batch_sz n_epochs shuffle =
     Inl (ValueError ''Attempt to convert a value (None) with an unsupported type to a Tensor.'') \<and>
   tfrecord_pipeline eager_tf_data FLAGS (parser :: record_tensor \<Rightarrow> error + 'x)
       (Some file) batch_sz n_epochs shuffle =
     Inl (NotImplementedError ''parser(called by tfrecord_pipeline): not implemented!'') \<and>
   create_train_data_iterator eager_tf_data (default_flags TIME_STAMP rate)
       (parser :: record_tensor \<Rightarrow> error + 'x) self =
     Inl (ValueError ''Attempt to convert a value (None) with an unsupported type to a Tensor.'',
          self) \<and>
   train eager_tf_data compile fit (default_flags TIME_STAMP rate)
       (parser :: record_tensor \<Rightarrow> error + 'x) obj model =
     Inl (ValueError ''Attempt to convert a value (None) with an unsupported type to a Tensor.'',
          obj) \<and>
   mylog (\<lambda>x. Inr (ln x)) (\<lambda>x y. Inr (max x y)) Inr 1 = Inr 0 \<and>
   build_optimizer (default_flags TIME_STAMP rate) = Inr (Optimizer LazyAdam rate) \<and>
   lr_schedule 0 lr = lr"
proof -
  have summary: "(get_summary :: error + 's) =
     Inl (NotImplementedError ''parser(called by tfrecord_pipeline): not implemented!'')"
    by (simp add: get_summary_def)
  have parse: "\<forall>record :: 'r. (parser record :: error + 'e) =
     Inl (NotImplementedError ''parser(called by tfrecord_pipeline): not implemented!'')"
    by (simp add: parser_def)
  have construct: "(init (\<lambda>f. object_init [f]) get_summary rt flags_arg FLAGS w
      :: (error + ('d, 'a) trainable_object) \<times> 'w) =
     (Inl (TypeError
        ''object.__init__() takes exactly one argument (the instance to initialize)''), w)"
    by (simp add: init_def object_init_def)
  have seed: "seed_everything rt 10 w =
      set_environ rt ''PYTHONHASHSEED'' ''10'' (set_seed rt 10 w)"
    by (simp add: seed_everything_def str_int_10)
  have loss: "build_loss
     \<lparr>LABEL = ''clicked'', VOC_SIZE = map_of [(''clicked'', 2)],
      train_iterator = None :: 'd option, valid_iterator = None\<rparr> = Inr BinaryCrossentropy"
    by (simp add: build_loss_def label_voc_size_def)
  have metrics: "build_metrics
     \<lparr>LABEL = ''clicked'', VOC_SIZE = map_of [(''clicked'', 2)],
      train_iterator = None :: 'd option, valid_iterator = None\<rparr> = Inr [AUC, BinaryAccuracy]"
    by (simp add: build_metrics_def label_voc_size_def)
  have no_file: "tfrecord_pipeline eager_tf_data FLAGS (parser :: record_tensor \<Rightarrow> error + 'x)
       None batch_sz n_epochs shuffle =
     Inl (ValueError ''Attempt to convert a value (None) with an unsupported type to a Tensor.'')"
    by (rule eager_pipeline_no_file)
  have stub: "tfrecord_pipeline eager_tf_data FLAGS (parser :: record_tensor \<Rightarrow> error + 'x)
       (Some file) batch_sz n_epochs shuffle =
     Inl (NotImplementedError ''parser(called by tfrecord_pipeline): not implemented!'')"
    by (rule eager_pipeline_stub_parser)
  have iterators: "create_train_data_iterator eager_tf_data (default_flags TIME_STAMP rate)
       (parser :: record_tensor \<Rightarrow> error + 'x) s =
     Inl (ValueError ''Attempt to convert a value (None) with an unsupported type to a Tensor.'',
          s)"
    for s :: "((string option, record_tensor \<Rightarrow> error + 'x) dataset, 'z) trainable_scheme"
    by (simp add: create_train_data_iterator_def default_flags_def eager_pipeline_no_file)
  have training: "train eager_tf_data compile fit (default_flags TIME_STAMP rate)
       (parser :: record_tensor \<Rightarrow> error + 'x) obj model =
     Inl (ValueError ''Attempt to convert a value (None) with an unsupported type to a Tensor.'',
          obj)"
    by (simp add: train_def iterators)
  have logarithm: "mylog (\<lambda>x. Inr (ln x)) (\<lambda>x y. Inr (max x y)) Inr (1 :: real) = Inr 0"
    by (simp add: mylog_def)
  have opt: "build_optimizer (default_flags TIME_STAMP rate) = Inr (Optimizer LazyAdam rate)"
    by (simp add: build_optimizer_def default_flags_def)
  have schedule: "lr_schedule 0 lr = lr"
    by (simp add: lr_schedule_def LR_SCHEDULE_def)
  from summary parse construct seed loss metrics no_file stub iterators training logarithm
    opt schedule
  show ?thesis
    by blast
qed

subsection \<open>Neural factorization machine\<close>

text \<open>
  C7. When the \<^verbatim>\<open>deep_layers\<close> flag splits at its commas into integers,
  \<open>build\<close> succeeds and stores the layer of \<open>build_fm\<close> and the layer of
  \<open>build_deep\<close> for those integers; after it, \<open>build_network\<close> returns, for
  every features input and every \<open>is_training\<close>, the hidden layers applied
  to the interaction layer applied to the features, and nothing else.
\<close>

theorem build_network_composition:
  "int_each py_int (str_split (CHR '','') deep_layers) = Inr hidden \<Longrightarrow>
   \<exists>self'. build py_int build_fm build_deep deep_layers self = Inr self' \<and>
     B_Interaction_Layer self' = Some build_fm \<and>
     Hidden_Layers self' = Some (build_deep hidden) \<and>
     (\<forall>features is_training.
        build_network self' features is_training = Inr (build_deep hidden (build_fm features)))"
  by (simp add: build_def build_network_def)

theorem build_network_composition_witness:
  "int_each (\<lambda>h. if h = ''64'' then Inr 64 else if h = ''32'' then Inr 32 else Inl (ValueError h))
     (str_split (CHR '','') ''64,32'') = Inr [64, 32] \<and>
   (\<exists>self'. build
        (\<lambda>h. if h = ''64'' then Inr 64 else if h = ''32'' then Inr 32 else Inl (ValueError h))
        (\<lambda>features :: int list. sum_list features) (\<lambda>hidden logit. logit # hidden) ''64,32''
        \<lparr>B_Interaction_Layer = None, Hidden_Layers = None\<rparr> = Inr self' \<and>
      build_network self' [1, 2, 3] None = Inr [6, 64, 32])"
proof -
  have parsed:
    "int_each (\<lambda>h. if h = ''64'' then Inr 64 else if h = ''32'' then Inr 32 else Inl (ValueError h))
       (str_split (CHR '','') ''64,32'') = Inr [64, 32]"
    by simp
  from build_network_composition
    [OF parsed, of "\<lambda>features :: int list. sum_list features" "\<lambda>hidden logit. logit # hidden"
       "\<lparr>B_Interaction_Layer = None, Hidden_Layers = None\<rparr>"]
  obtain self' where
    "build
       (\<lambda>h. if h = ''64'' then Inr 64 else if h = ''32'' then Inr 32 else Inl (ValueError h))
       (\<lambda>features :: int list. sum_list features) (\<lambda>hidden logit. logit # hidden) ''64,32''
       \<lparr>B_Interaction_Layer = None, Hidden_Layers = None\<rparr> = Inr self'"
    and "\<forall>features is_training.
       build_network self' features is_training = Inr (sum_list features # [64, 32])"
    by blast
  then have
    "build
       (\<lambda>h. if h = ''64'' then Inr 64 else if h = ''32'' then Inr 32 else Inl (ValueError h))
       (\<lambda>features :: int list. sum_list features) (\<lambda>hidden logit. logit # hidden) ''64,32''
       \<lparr>B_Interaction_Layer = None, Hidden_Layers = None\<rparr> = Inr self' \<and>
     build_network self' [1, 2, 3] None = Inr [6, 64, 32]"
    by simp
  with parsed show ?thesis
    by blast
qed

end


